theory Spec2Isabelle
  imports Complex_Main "HOL-Library.AList"
begin

section \<open>Data model (src/types/index.ts, scripts/init-mysql.sql)\<close>

text \<open>
  Amounts are \<open>Decimal\<close> values in the service and \<open>DECIMAL(36, 18)\<close> columns in
  the store; a value of either kind is a rational number. The arithmetic of the service
  rounds (next section); the arithmetic of the SQL statements is exact, and the scale of
  the columns is not modelled. Wall-clock stamps that no decision depends on
  (\<open>updatedAt\<close>, \<open>created_at\<close>) are left out; the clock that lease expiry
  compares against is the field \<open>now\<close> of the environment.
\<close>

type_synonym decimal = rat

section \<open>Decimal arithmetic of the service (library decimal.js)\<close>

text \<open>
  The service computes with \<open>Decimal\<close> objects of decimal.js and never changes the
  library's configuration: \<open>precision\<close> is 20 significant digits and the rounding
  mode is \<open>ROUND_HALF_UP\<close> (to nearest, ties away from zero). The constructor keeps
  every digit of its argument; \<open>add\<close> and \<open>sub\<close> return the exact result rounded
  to the precision; comparisons (\<open>lt\<close>, \<open>gte\<close>) are exact.
\<close>

definition precision :: nat where
  "precision = 20"

definition pow10 :: "int \<Rightarrow> rat" where
  "pow10 k = (if 0 \<le> k then 10 ^ nat k else 1 / 10 ^ nat (- k))"

text \<open>The number of decimal digits of a non-negative integer.\<close>

function digits10 :: "int \<Rightarrow> nat" where
  "digits10 n = (if n < 10 then 1 else Suc (digits10 (n div 10)))"
  by pat_completeness auto
termination
  by (relation "measure nat") auto

declare digits10.simps [simp del]

text \<open>
  For \<open>x > 0\<close>, the exponent \<open>k\<close> of its leading digit:
  \<open>10^k \<le> x < 10^(k+1)\<close>. With \<open>x = n / d\<close> it is the difference of the
  digit counts of \<open>n\<close> and \<open>d\<close>, or one less.
\<close>

definition decimal_exponent :: "rat \<Rightarrow> int" where
  "decimal_exponent x =
     (case quotient_of x of
        (n, d) \<Rightarrow>
          (let k = int (digits10 n) - int (digits10 d)
           in if pow10 k \<le> x then k else k - 1))"

text \<open>Rounding to \<open>precision\<close> significant digits, ties away from zero.\<close>

definition finalise :: "rat \<Rightarrow> rat" where
  "finalise x =
     (if x = 0 then 0
      else (let unit = pow10 (decimal_exponent \<bar>x\<bar> - (int precision - 1))
            in sgn x * of_int \<lfloor>\<bar>x\<bar> / unit + 1 / 2\<rfloor> * unit))"

definition Decimal_add :: "decimal \<Rightarrow> decimal \<Rightarrow> decimal" where
  "Decimal_add x y = finalise (x + y)"

definition Decimal_sub :: "decimal \<Rightarrow> decimal \<Rightarrow> decimal" where
  "Decimal_sub x y = finalise (x - y)"

datatype TransactionType = DEPOSIT | WITHDRAW | FREEZE | UNFREEZE | TRANSFER

datatype TransactionStatus = INIT | PROCESSING | SUCCESS | FAILED

datatype OutboxStatus = PENDING | SENT | SEND_FAILED

text \<open>
  Every exception of the pipeline is a plain JavaScript \<open>Error\<close>; the constructors
  below name the throw sites (the messages differ, the class does not).
\<close>

datatype error =
    BalanceNotFound
  | InsufficientBalance
  | InsufficientFreeze
  | InsufficientFrozen
  | UnknownTransactionType
  | CacheInsufficientBalance
  | CacheInsufficientFrozen
  | CacheBalanceNotFound
  | LostLeaderLock
  | DatabaseError
  | DuplicateEvent
  | KafkaError

record Balance =
  accountId :: int
  currencyCode :: string
  available :: decimal
  frozen :: decimal
  version :: int

record BalanceChangeRequest =
  transactionId :: string
  req_accountId :: int
  userId :: string
  req_currencyCode :: string
  req_type :: TransactionType
  amount :: decimal

record BalanceChangeResult =
  res_transactionId :: string
  success :: bool
  availableBefore :: decimal
  availableAfter :: decimal
  frozenBefore :: decimal
  frozenAfter :: decimal
  errorMessage :: "error option"

text \<open>Rows of \<open>balance_transactions\<close> (the ledger), unique on \<open>transaction_id\<close>.\<close>

record transaction_row =
  tx_account_id :: int
  tx_currency_code :: string
  transaction_id :: string
  tx_type :: TransactionType
  tx_amount :: decimal
  available_before :: decimal
  available_after :: decimal
  frozen_before :: decimal
  frozen_after :: decimal
  status :: TransactionStatus
  error_message :: "error option"

text \<open>Rows of \<open>outbox_events\<close>, unique on \<open>event_id\<close> only.\<close>

record outbox_row =
  event_id :: string
  ob_topic :: string
  partition_key :: string
  payload :: BalanceChangeRequest
  ob_status :: OutboxStatus

text \<open>The single row (\<open>id = 1\<close>) of \<open>leader_locks\<close>.\<close>

record lock_row =
  consumer_id :: string
  acquired_at :: nat
  expires_at :: nat

record offset_row =
  consumer_group :: string
  o_topic :: string
  o_partition :: int
  o_offset :: nat

text \<open>
  The relational store. A table is the list of its rows in insertion order; rows of
  \<open>account_balances\<close> have the columns of \<open>Balance\<close>. Foreign keys to
  \<open>accounts\<close> are not modelled (accounts are created by an administrative path).
\<close>

record database =
  account_balances :: "Balance list"
  balance_transactions :: "transaction_row list"
  outbox_events :: "outbox_row list"
  leader_locks :: "lock_row option"
  consumer_offsets :: "offset_row list"

text \<open>
  What the surroundings decide for one call: the clock, whether a query on the
  connection pool raises, whether the batch transaction raises at its staging insert,
  whether the log producer raises, and the configured retry bound
  (\<open>config.consumer.retry.maxRetries\<close>, 3 by default).
\<close>

record env =
  now :: nat
  pool_fails :: bool
  tx_fails :: bool
  kafka_fails :: bool
  maxRetries :: nat

section \<open>In-memory working set (src/cache/memory.ts, class BalanceCache)\<close>

text \<open>
  A JavaScript \<open>Map\<close> keeps insertion order and \<open>set\<close> on a present key
  overwrites in place, which is what \<open>AList.update\<close> does. The key
  \<open>accountId:currencyCode\<close> is the pair.
\<close>

type_synonym cache = "((int \<times> string) \<times> Balance) list"

definition cache_get :: "cache \<Rightarrow> int \<Rightarrow> string \<Rightarrow> Balance option" where
  "cache_get c a cur = map_of c (a, cur)"

definition cache_set :: "cache \<Rightarrow> int \<Rightarrow> string \<Rightarrow> Balance \<Rightarrow> cache" where
  "cache_set c a cur b = AList.update (a, cur) b c"

definition cache_update ::
  "cache \<Rightarrow> int \<Rightarrow> string \<Rightarrow> decimal \<Rightarrow> decimal \<Rightarrow> error + (Balance \<times> cache)" where
  "cache_update c a cur availableDelta frozenDelta =
     (case map_of c (a, cur) of
        Some current \<Rightarrow>
          (let newAvailable = Decimal_add (available current) availableDelta;
               newFrozen = Decimal_add (frozen current) frozenDelta
           in if newAvailable < 0 then Inl CacheInsufficientBalance
              else if newFrozen < 0 then Inl CacheInsufficientFrozen
              else (let updated = current\<lparr>available := newAvailable, frozen := newFrozen,
                                            version := version current + 1\<rparr>
                    in Inr (updated, AList.update (a, cur) updated c)))
      | None \<Rightarrow> Inl CacheBalanceNotFound)"

section \<open>Balance service (src/services/balance.ts)\<close>

definition loadBalanceFromDB ::
  "env \<Rightarrow> database \<Rightarrow> cache \<Rightarrow> int \<Rightarrow> string \<Rightarrow> error + (Balance option \<times> cache)" where
  "loadBalanceFromDB e d c a cur =
     (if pool_fails e then Inl DatabaseError
      else (case find (\<lambda>r. accountId r = a \<and> currencyCode r = cur) (account_balances d) of
              None \<Rightarrow> Inr (None, c)
            | Some row \<Rightarrow> Inr (Some row, cache_set c a cur row)))"

definition getBalance ::
  "env \<Rightarrow> database \<Rightarrow> cache \<Rightarrow> int \<Rightarrow> string \<Rightarrow> error + (Balance option \<times> cache)" where
  "getBalance e d c a cur = loadBalanceFromDB e d c a cur"

text \<open>
  \<open>recordTransaction\<close> is a single autocommit insert on the pool, outside any batch
  transaction; the caller does not await it and swallows its failure. A duplicate key on
  \<open>transaction_id\<close> is ignored.
\<close>

definition recordTransaction ::
  "env \<Rightarrow> database \<Rightarrow> BalanceChangeRequest \<Rightarrow> decimal \<Rightarrow> decimal \<Rightarrow> decimal \<Rightarrow> decimal
     \<Rightarrow> TransactionStatus \<Rightarrow> error option \<Rightarrow> database" where
  "recordTransaction e d request ab aa fb fa st msg =
     (if pool_fails e then d
      else if list_ex (\<lambda>r. transaction_id r = transactionId request) (balance_transactions d)
      then d
      else d\<lparr>balance_transactions := balance_transactions d @
             [\<lparr>tx_account_id = req_accountId request,
               tx_currency_code = req_currencyCode request,
               transaction_id = transactionId request,
               tx_type = req_type request,
               tx_amount = amount request,
               available_before = ab, available_after = aa,
               frozen_before = fb, frozen_after = fa,
               status = st, error_message = msg\<rparr>]\<rparr>)"

text \<open>Step 3 of \<open>updateBalance\<close>: the \<open>switch\<close> on the request type.\<close>

definition computeAfter ::
  "TransactionType \<Rightarrow> decimal \<Rightarrow> decimal \<Rightarrow> decimal \<Rightarrow> error + (decimal \<times> decimal)" where
  "computeAfter ty availableBefore' frozenBefore' amt =
     (case ty of
        DEPOSIT \<Rightarrow> Inr (Decimal_add availableBefore' amt, frozenBefore')
      | WITHDRAW \<Rightarrow>
          (let availableAfter' = Decimal_sub availableBefore' amt
           in if availableAfter' < 0 then Inl InsufficientBalance
              else Inr (availableAfter', frozenBefore'))
      | FREEZE \<Rightarrow>
          (let availableAfter' = Decimal_sub availableBefore' amt;
               frozenAfter' = Decimal_add frozenBefore' amt
           in if availableAfter' < 0 then Inl InsufficientFreeze
              else Inr (availableAfter', frozenAfter'))
      | UNFREEZE \<Rightarrow>
          (let availableAfter' = Decimal_add availableBefore' amt;
               frozenAfter' = Decimal_sub frozenBefore' amt
           in if frozenAfter' < 0 then Inl InsufficientFrozen
              else Inr (availableAfter', frozenAfter'))
      | TRANSFER \<Rightarrow> Inl UnknownTransactionType)"

text \<open>
  \<open>updateBalance\<close> returns the thrown error (\<open>Inl\<close>) or the result object, with the
  store (changed by \<open>recordTransaction\<close> only) and the working set.
\<close>

definition updateBalance ::
  "env \<Rightarrow> BalanceChangeRequest \<Rightarrow> database \<Rightarrow> cache
     \<Rightarrow> (error + BalanceChangeResult) \<times> database \<times> cache" where
  "updateBalance e request d c =
     (case getBalance e d c (req_accountId request) (req_currencyCode request) of
        Inl err \<Rightarrow> (Inl err, d, c)
      | Inr (found, c1) \<Rightarrow>
          (case (case found of
                   Some b \<Rightarrow> Some (b, c1)
                 | None \<Rightarrow>
                     (if req_type request = DEPOSIT \<and> 0 \<le> amount request
                      then (let z = \<lparr>accountId = req_accountId request,
                                     currencyCode = req_currencyCode request,
                                     available = 0, frozen = 0, version = 0\<rparr>
                            in Some (z, cache_set c1 (req_accountId request)
                                          (req_currencyCode request) z))
                      else None)) of
             None \<Rightarrow> (Inl BalanceNotFound, d, c1)
           | Some (currentBalance, c2) \<Rightarrow>
               (let ab = available currentBalance; fb = frozen currentBalance
                in case computeAfter (req_type request) ab fb (amount request) of
                     Inl err \<Rightarrow> (Inl err, d, c2)
                   | Inr (aa, fa) \<Rightarrow>
                       (case cache_update c2 (req_accountId request) (req_currencyCode request)
                               (Decimal_sub aa ab) (Decimal_sub fa fb) of
                          Inr (updated, c3) \<Rightarrow>
                            (Inr \<lparr>res_transactionId = transactionId request, success = True,
                                  availableBefore = ab, availableAfter = aa,
                                  frozenBefore = fb, frozenAfter = fa,
                                  errorMessage = None\<rparr>,
                             recordTransaction e d request ab aa fb fa SUCCESS None, c3)
                        | Inl err \<Rightarrow>
                            (Inr \<lparr>res_transactionId = transactionId request, success = False,
                                  availableBefore = ab, availableAfter = ab,
                                  frozenBefore = fb, frozenAfter = fb,
                                  errorMessage = Some err\<rparr>,
                             recordTransaction e d request ab ab fb fb FAILED (Some err), c2)))))"

section \<open>Leader election (services/leader-election, in src/unnamed/part_010)\<close>

record LeaderElection =
  consumerId :: string
  lockTTL :: nat
  isLeader :: bool

text \<open>
  \<open>acquireLock\<close>: the upsert takes the row over only when it has expired; the driver
  reports matched rows, so the holder is then read back and compared.
\<close>

definition acquireLock ::
  "env \<Rightarrow> LeaderElection \<Rightarrow> database \<Rightarrow> bool \<times> LeaderElection \<times> database" where
  "acquireLock e le d =
     (if pool_fails e then (False, le, d)
      else (let fresh = \<lparr>consumer_id = consumerId le, acquired_at = now e,
                           expires_at = now e + lockTTL le\<rparr>;
                row = (case leader_locks d of
                         None \<Rightarrow> fresh
                       | Some l \<Rightarrow> if expires_at l < now e then fresh else l);
                d' = d\<lparr>leader_locks := Some row\<rparr>
            in if consumer_id row = consumerId le
               then (True, le\<lparr>isLeader := True\<rparr>, d')
               else (False, le, d')))"

definition renewLock ::
  "env \<Rightarrow> LeaderElection \<Rightarrow> database \<Rightarrow> bool \<times> LeaderElection \<times> database" where
  "renewLock e le d =
     (if \<not> isLeader le then (False, le, d)
      else if pool_fails e then (False, le\<lparr>isLeader := False\<rparr>, d)
      else (case leader_locks d of
              None \<Rightarrow> (False, le\<lparr>isLeader := False\<rparr>, d)
            | Some l \<Rightarrow>
                if consumer_id l = consumerId le \<and> now e < expires_at l
                then (True, le,
                      d\<lparr>leader_locks := Some (l\<lparr>expires_at := now e + lockTTL le\<rparr>)\<rparr>)
                else (False, le\<lparr>isLeader := False\<rparr>, d)))"

text \<open>The fence: a read of the lock row on the connection of the open transaction.\<close>

definition checkLockInTransaction ::
  "env \<Rightarrow> LeaderElection \<Rightarrow> database \<Rightarrow> bool \<times> LeaderElection" where
  "checkLockInTransaction e le d =
     (let rows = (case leader_locks d of
                    None \<Rightarrow> []
                  | Some l \<Rightarrow>
                      if consumer_id l = consumerId le \<and> now e < expires_at l then [l] else []);
          isLeader' = (case rows of [] \<Rightarrow> False | l # _ \<Rightarrow> consumer_id l = consumerId le)
      in (isLeader', if \<not> isLeader' \<and> isLeader le then le\<lparr>isLeader := False\<rparr> else le))"

section \<open>Batch writer (services/mysql-writer, in src/unnamed/part_011)\<close>

text \<open>
  The writer that the consumer calls is \<open>batchWriteBalanceUpdates\<close>; the variant
  \<open>batchWriteWithLoadData\<close> has no caller and is left out.
\<close>

text \<open>An element of the \<open>updates\<close> array handed to the writer.\<close>

record balance_update =
  request :: BalanceChangeRequest
  u_availableBefore :: decimal
  u_availableAfter :: decimal
  u_frozenBefore :: decimal
  u_frozenAfter :: decimal
  u_status :: TransactionStatus

text \<open>A row of the temporary table \<open>temp_balance_updates\<close>.\<close>

record staging_row =
  s_account_id :: int
  s_currency_code :: string
  available_delta :: decimal
  frozen_delta :: decimal
  s_transaction_id :: string
  s_type :: TransactionType
  s_amount :: decimal
  s_available_before :: decimal
  s_available_after :: decimal
  s_frozen_before :: decimal
  s_frozen_after :: decimal
  s_status :: TransactionStatus

definition staging_values :: "balance_update \<Rightarrow> staging_row" where
  "staging_values u =
     \<lparr>s_account_id = req_accountId (request u),
      s_currency_code = req_currencyCode (request u),
      available_delta = Decimal_sub (u_availableAfter u) (u_availableBefore u),
      frozen_delta = Decimal_sub (u_frozenAfter u) (u_frozenBefore u),
      s_transaction_id = transactionId (request u),
      s_type = req_type (request u),
      s_amount = amount (request u),
      s_available_before = u_availableBefore u,
      s_available_after = u_availableAfter u,
      s_frozen_before = u_frozenBefore u,
      s_frozen_after = u_frozenAfter u,
      s_status = u_status u\<rparr>"

text \<open>
  Statement 5.1, the join-update. MySQL updates each row of the target once even when
  several staging rows join it; the staging row used is taken to be the first one, in
  insertion order, that satisfies the join and the \<open>WHERE\<close> guard.
\<close>

definition joins :: "Balance \<Rightarrow> staging_row \<Rightarrow> bool" where
  "joins ab t = (accountId ab = s_account_id t \<and> currencyCode ab = s_currency_code t)"

definition update_existing :: "staging_row list \<Rightarrow> Balance list \<Rightarrow> Balance list" where
  "update_existing temp rows =
     map (\<lambda>ab. case find (\<lambda>t. joins ab t \<and> 0 \<le> available ab + available_delta t
                                   \<and> 0 \<le> frozen ab + frozen_delta t) temp of
                 None \<Rightarrow> ab
               | Some t \<Rightarrow> ab\<lparr>available := available ab + available_delta t,
                              frozen := frozen ab + frozen_delta t,
                              version := version ab + 1\<rparr>) rows"

text \<open>
  Statement 5.2, \<open>INSERT IGNORE ... SELECT\<close>: the staging rows with no balance row
  and non-negative after-values are selected against the table as the update left it,
  then inserted in order with version 0; a row whose key is present by then is ignored.
\<close>

definition insert_ignore :: "Balance list \<Rightarrow> staging_row \<Rightarrow> Balance list" where
  "insert_ignore rows t =
     (if list_ex (\<lambda>ab. joins ab t) rows then rows
      else rows @ [\<lparr>accountId = s_account_id t, currencyCode = s_currency_code t,
                    available = s_available_after t, frozen = s_frozen_after t,
                    version = 0\<rparr>])"

definition insert_missing :: "staging_row list \<Rightarrow> Balance list \<Rightarrow> Balance list" where
  "insert_missing temp rows =
     foldl insert_ignore rows
       (filter (\<lambda>t. \<not> list_ex (\<lambda>ab. joins ab t) rows
                     \<and> 0 \<le> s_available_after t \<and> 0 \<le> s_frozen_after t) temp)"

text \<open>
  Statement 6, the ledger insert with \<open>ON DUPLICATE KEY UPDATE status = VALUES(status)\<close>.
\<close>

definition upsert_transaction :: "transaction_row list \<Rightarrow> staging_row \<Rightarrow> transaction_row list" where
  "upsert_transaction ledger t =
     (if list_ex (\<lambda>r. transaction_id r = s_transaction_id t) ledger
      then map (\<lambda>r. if transaction_id r = s_transaction_id t then r\<lparr>status := s_status t\<rparr> else r)
             ledger
      else ledger @ [\<lparr>tx_account_id = s_account_id t,
                      tx_currency_code = s_currency_code t,
                      transaction_id = s_transaction_id t,
                      tx_type = s_type t,
                      tx_amount = s_amount t,
                      available_before = s_available_before t,
                      available_after = s_available_after t,
                      frozen_before = s_frozen_before t,
                      frozen_after = s_frozen_after t,
                      status = s_status t, error_message = None\<rparr>])"

definition insert_transactions :: "staging_row list \<Rightarrow> transaction_row list \<Rightarrow> transaction_row list" where
  "insert_transactions temp ledger = foldl upsert_transaction ledger temp"

text \<open>
  The callback that \<open>processBatch\<close> builds around the leader-election instance: it
  throws when the fence read does not find the lock.
\<close>

definition leaderCheckCallback ::
  "env \<Rightarrow> LeaderElection \<Rightarrow> database \<Rightarrow> error option \<times> LeaderElection" where
  "leaderCheckCallback e le d =
     (case checkLockInTransaction e le d of
        (True, le') \<Rightarrow> (None, le')
      | (False, le') \<Rightarrow> (Some LostLeaderLock, le'))"

text \<open>
  \<open>batchWriteBalanceUpdates\<close>: one transaction; any error rolls it back (the store is
  returned as it was) and is rethrown. The second argument is the instance the optional
  callback is bound to (\<open>None\<close>: no callback was passed).
\<close>

definition batchWriteBalanceUpdates ::
  "env \<Rightarrow> balance_update list \<Rightarrow> LeaderElection option \<Rightarrow> database
     \<Rightarrow> (error + unit) \<times> database \<times> LeaderElection option" where
  "batchWriteBalanceUpdates e updates callback d =
     (if updates = [] then (Inr (), d, callback)
      else if tx_fails e then (Inl DatabaseError, d, callback)
      else (let temp = map staging_values updates;
                commit = d\<lparr>account_balances :=
                              insert_missing temp (update_existing temp (account_balances d)),
                           balance_transactions :=
                              insert_transactions temp (balance_transactions d)\<rparr>
            in case callback of
                 None \<Rightarrow> (Inr (), commit, None)
               | Some le \<Rightarrow>
                   (case leaderCheckCallback e le d of
                      (Some err, le') \<Rightarrow> (Inl err, d, Some le')
                    | (None, le') \<Rightarrow> (Inr (), commit, Some le'))))"

section \<open>Process state\<close>

text \<open>
  A log record as the consumer sees it: \<open>m_value\<close> is the parsed payload,
  \<open>None\<close> when \<open>JSON.parse\<close> throws.
\<close>

record message =
  m_key :: string
  m_value :: "BalanceChangeRequest option"
  m_offset :: nat

record dlq_message =
  originalKey :: string
  originalValue :: BalanceChangeRequest
  originalPartition :: int
  originalOffset :: "nat option"
  dlq_error :: error
  dlq_retryCount :: nat

record subscription =
  sub_topic :: string
  fromBeginning :: bool

text \<open>
  The module-level singletons of one process (store handle, working set, leader
  election instance and flag, consumer fields), with the log topics it writes to (one
  partition each) and the queue of the snapshot updater.
\<close>

record world =
  db :: database
  balanceCache :: cache
  leaderElectionInstance :: "LeaderElection option"
  leaderElectionEnabled :: bool
  running :: bool
  consumer :: "subscription option"
  retryMap :: "(string \<times> nat) list"
  balance_changes :: "message list"
  balance_changes_dlq :: "dlq_message list"
  redis_queue :: "Balance list"

definition enableLeaderElection :: "world \<Rightarrow> world" where
  "enableLeaderElection w = w\<lparr>leaderElectionEnabled := True\<rparr>"

definition disableLeaderElection :: "world \<Rightarrow> world" where
  "disableLeaderElection w = w\<lparr>leaderElectionEnabled := False\<rparr>"

definition isLeaderElectionEnabled :: "world \<Rightarrow> bool" where
  "isLeaderElectionEnabled w =
     (leaderElectionEnabled w \<and>
      (case leaderElectionInstance w of None \<Rightarrow> False | Some le \<Rightarrow> isLeader le))"

section \<open>Retry policy (src/utils/error-handler.ts)\<close>

definition errorName :: "error \<Rightarrow> string" where
  "errorName err = ''Error''"

definition nonRetryableErrors :: "string list" where
  "nonRetryableErrors =
     [''ValidationError'', ''AuthenticationError'', ''AuthorizationError'', ''InvalidFormatError'']"

definition shouldRetry :: "env \<Rightarrow> nat \<Rightarrow> error \<Rightarrow> bool" where
  "shouldRetry e retryCount err =
     (if maxRetries e \<le> retryCount then False
      else if List.member nonRetryableErrors (errorName err) then False
      else True)"

definition sendToDLQ ::
  "env \<Rightarrow> dlq_message \<Rightarrow> dlq_message list \<Rightarrow> error + dlq_message list" where
  "sendToDLQ e m topic = (if kafka_fails e then Inl KafkaError else Inr (topic @ [m]))"

definition handleRetryableError ::
  "env \<Rightarrow> dlq_message \<Rightarrow> nat \<Rightarrow> dlq_message list \<Rightarrow> error + (bool \<times> dlq_message list)" where
  "handleRetryableError e m retryCount topic =
     (if \<not> shouldRetry e retryCount (dlq_error m)
      then (case sendToDLQ e m topic of
              Inl err \<Rightarrow> Inl err
            | Inr topic' \<Rightarrow> Inr (False, topic'))
      else Inr (True, topic))"

definition handleError ::
  "env \<Rightarrow> dlq_message \<Rightarrow> nat \<Rightarrow> dlq_message list \<Rightarrow> error + (bool \<times> dlq_message list)" where
  "handleError e m retryCount topic = handleRetryableError e m retryCount topic"

section \<open>Batch consumer (consumer/batch-consumer, in src/unnamed/part_007)\<close>

definition balanceChangesTopic :: string where
  "balanceChangesTopic = ''balance-changes''"

text \<open>
  \<open>start\<close> subscribes to the topic with \<open>fromBeginning: true\<close> and launches the
  poll loop; where the log client resumes is the client's business.
\<close>

definition start :: "world \<Rightarrow> world" where
  "start w =
     (if running w then w
      else w\<lparr>consumer := Some \<lparr>sub_topic = balanceChangesTopic, fromBeginning = True\<rparr>,
             running := True\<rparr>)"

text \<open>
  \<open>deduplicateMessages\<close>: parse, collect the set of transaction ids, ask the ledger
  which of them have a row whose status is not \<open>INIT\<close>, and keep the requests whose
  id is not among those.
\<close>

definition deduplicateMessages ::
  "env \<Rightarrow> database \<Rightarrow> message list \<Rightarrow> error + BalanceChangeRequest list" where
  "deduplicateMessages e d messages =
     (let requests = List.map_filter m_value messages;
          transactionIds = remdups (map transactionId requests)
      in if transactionIds = [] then Inr []
         else if pool_fails e then Inl DatabaseError
         else (let processedIds =
                     map transaction_id
                       (filter (\<lambda>r. List.member transactionIds (transaction_id r) \<and> status r \<noteq> INIT)
                          (balance_transactions d))
               in Inr (filter (\<lambda>r. \<not> List.member processedIds (transactionId r)) requests)))"

text \<open>
  One iteration of the loop over the unique requests (step 2 of \<open>processBatch\<close>):
  \<open>Some err\<close> is an exception that leaves \<open>processBatch\<close>.
\<close>

definition processRequest ::
  "env \<Rightarrow> message list \<Rightarrow> int \<Rightarrow> BalanceChangeRequest \<Rightarrow> balance_update list \<times> world
     \<Rightarrow> error option \<times> balance_update list \<times> world" where
  "processRequest e messages part req uw =
     (case uw of (updates, w) \<Rightarrow>
        (case updateBalance e req (db w) (balanceCache w) of
           (Inr result, d', c') \<Rightarrow>
             (None,
              updates @ [\<lparr>request = req,
                           u_availableBefore = availableBefore result,
                           u_availableAfter = availableAfter result,
                           u_frozenBefore = frozenBefore result,
                           u_frozenAfter = frozenAfter result,
                           u_status = (if success result then SUCCESS else FAILED)\<rparr>],
              w\<lparr>db := d', balanceCache := c',
                retryMap := AList.delete (transactionId req) (retryMap w)\<rparr>)
         | (Inl err, d', c') \<Rightarrow>
             (let w1 = w\<lparr>db := d', balanceCache := c'\<rparr>;
                  matchingMessage = find (\<lambda>m. m_value m = Some req) messages;
                  retryCount = (case map_of (retryMap w1) (transactionId req) of
                                  None \<Rightarrow> 0 | Some n \<Rightarrow> n);
                  kafkaMessage = \<lparr>originalKey = userId req, originalValue = req,
                                   originalPartition = part,
                                   originalOffset = map_option m_offset matchingMessage,
                                   dlq_error = err, dlq_retryCount = retryCount\<rparr>
              in case handleError e kafkaMessage retryCount (balance_changes_dlq w1) of
                   Inl dlqError \<Rightarrow> (Some dlqError, updates, w1)
                 | Inr (True, topic') \<Rightarrow>
                     (None, updates,
                      w1\<lparr>retryMap := AList.update (transactionId req) (retryCount + 1)
                                        (retryMap w1)\<rparr>)
                 | Inr (False, topic') \<Rightarrow>
                     (None,
                      updates @ [\<lparr>request = req,
                                   u_availableBefore = 0, u_availableAfter = 0,
                                   u_frozenBefore = 0, u_frozenAfter = 0,
                                   u_status = FAILED\<rparr>],
                      w1\<lparr>balance_changes_dlq := topic'\<rparr>))))"

fun processRequests ::
  "env \<Rightarrow> message list \<Rightarrow> int \<Rightarrow> BalanceChangeRequest list \<Rightarrow> balance_update list \<times> world
     \<Rightarrow> error option \<times> balance_update list \<times> world" where
  "processRequests e messages part [] uw = (None, uw)"
| "processRequests e messages part (req # reqs) uw =
     (case processRequest e messages part req uw of
        (Some err, uw') \<Rightarrow> (Some err, uw')
      | (None, uw') \<Rightarrow> processRequests e messages part reqs uw')"

text \<open>
  Step 4 of \<open>processBatch\<close>: the working-set balance of every successful update goes
  to the snapshot updater.
\<close>

definition enqueueSnapshots :: "balance_update list \<Rightarrow> world \<Rightarrow> world" where
  "enqueueSnapshots updates w =
     w\<lparr>redis_queue := redis_queue w @
          List.map_filter
            (\<lambda>u. if u_status u = SUCCESS
                  then cache_get (balanceCache w) (req_accountId (request u))
                         (req_currencyCode (request u))
                  else None) updates\<rparr>"

text \<open>
  Step 3 of \<open>processBatch\<close>: the callback is passed only when
  \<open>isLeaderElectionEnabled()\<close> holds; an error of the write is logged and not
  rethrown.
\<close>

definition writeUpdates :: "env \<Rightarrow> balance_update list \<Rightarrow> world \<Rightarrow> (error + unit) \<times> world" where
  "writeUpdates e updates w =
     (let callback = (if isLeaderElectionEnabled w then leaderElectionInstance w else None)
      in case batchWriteBalanceUpdates e updates callback (db w) of
           (Inl err, d', cb') \<Rightarrow>
             (Inl err,
              w\<lparr>db := d',
                leaderElectionInstance :=
                  (case cb' of None \<Rightarrow> leaderElectionInstance w | Some le' \<Rightarrow> Some le')\<rparr>)
         | (Inr u, d', cb') \<Rightarrow>
             (Inr (),
              enqueueSnapshots updates
                (w\<lparr>db := d',
                   leaderElectionInstance :=
                     (case cb' of None \<Rightarrow> leaderElectionInstance w | Some le' \<Rightarrow> Some le')\<rparr>)))"

definition processBatch :: "env \<Rightarrow> message list \<Rightarrow> int \<Rightarrow> world \<Rightarrow> error option \<times> world" where
  "processBatch e messages part w =
     (if messages = [] then (None, w)
      else (case deduplicateMessages e (db w) messages of
              Inl err \<Rightarrow> (Some err, w)
            | Inr uniqueRequests \<Rightarrow>
                if uniqueRequests = [] then (None, w)
                else (case processRequests e messages part uniqueRequests ([], w) of
                        (Some err, updates, w1) \<Rightarrow> (Some err, w1)
                      | (None, updates, w1) \<Rightarrow>
                          if updates = [] then (None, w1)
                          else (None, snd (writeUpdates e updates w1)))))"

text \<open>
  The \<open>eachBatch\<close> handler of \<open>pollLoop\<close>: the offsets of all records of the batch
  are resolved once \<open>processBatch\<close> has returned; \<open>Inl\<close> is an exception that
  reaches the log client, which then resolves nothing.
\<close>

definition eachBatch :: "env \<Rightarrow> message list \<Rightarrow> int \<Rightarrow> world \<Rightarrow> (error + nat list) \<times> world" where
  "eachBatch e messages part w =
     (if \<not> running w then (Inr [], w)
      else if messages = [] then (Inr [], w)
      else (case processBatch e messages part w of
              (Some err, w') \<Rightarrow> (Inl err, w')
            | (None, w') \<Rightarrow> (Inr (map m_offset messages), w')))"

section \<open>Outbox (src/services/outbox.ts) and REST surface (src/api/rest/server.ts)\<close>

text \<open>
  \<open>sendToKafka\<close> runs after the insert without being awaited: it appends the payload
  to the topic and marks the outbox row \<open>SENT\<close>, or marks it failed.
\<close>

definition set_outbox_status :: "string \<Rightarrow> OutboxStatus \<Rightarrow> outbox_row list \<Rightarrow> outbox_row list" where
  "set_outbox_status ev st rows = map (\<lambda>r. if event_id r = ev then r\<lparr>ob_status := st\<rparr> else r) rows"

definition sendToKafka :: "env \<Rightarrow> string \<Rightarrow> BalanceChangeRequest \<Rightarrow> world \<Rightarrow> world" where
  "sendToKafka e eventId req w =
     (if kafka_fails e
      then w\<lparr>db := (db w)\<lparr>outbox_events :=
                               set_outbox_status eventId SEND_FAILED (outbox_events (db w))\<rparr>\<rparr>
      else w\<lparr>balance_changes := balance_changes w @
                 [\<lparr>m_key = userId req, m_value = Some req,
                   m_offset = length (balance_changes w)\<rparr>],
             db := (db w)\<lparr>outbox_events :=
                               set_outbox_status eventId SENT (outbox_events (db w))\<rparr>\<rparr>)"

text \<open>
  \<open>createBalanceChange\<close>. The event id comes from \<open>generateEventId()\<close> (clock plus
  random bytes) and is a parameter here. The only unique index the insert can violate
  is the one on \<open>event_id\<close>.
\<close>

definition createBalanceChange ::
  "env \<Rightarrow> string \<Rightarrow> BalanceChangeRequest \<Rightarrow> world \<Rightarrow> (error + string) \<times> world" where
  "createBalanceChange e eventId req w =
     (if pool_fails e then (Inl DatabaseError, w)
      else if list_ex (\<lambda>r. event_id r = eventId) (outbox_events (db w))
      then (Inl DuplicateEvent, w)
      else (Inr eventId,
            sendToKafka e eventId req
              (w\<lparr>db := (db w)\<lparr>outbox_events := outbox_events (db w) @
                   [\<lparr>event_id = eventId, ob_topic = balanceChangesTopic,
                     partition_key = userId req, payload = req,
                     ob_status = PENDING\<rparr>]\<rparr>\<rparr>)))"

text \<open>
  The JSON body of \<open>POST /api/v1/balance/change\<close>; \<open>None\<close> is an absent field. The
  validation is JavaScript truthiness: an empty string and the number 0 are missing.
  The gRPC handler validates and forwards in the same way.
\<close>

record request_body =
  b_transaction_id :: "string option"
  b_account_id :: "int option"
  b_user_id :: "string option"
  b_currency_code :: "string option"
  b_type :: "nat option"
  b_amount :: "decimal option"

datatype response =
    Ok200 string string
  | BadRequest400 string
  | Conflict409 error
  | ServerError500 error

definition transactionTypeMap :: "nat \<Rightarrow> TransactionType option" where
  "transactionTypeMap n =
     (if n = 0 then Some DEPOSIT
      else if n = 1 then Some WITHDRAW
      else if n = 2 then Some FREEZE
      else if n = 3 then Some UNFREEZE
      else if n = 4 then Some TRANSFER
      else None)"

definition changeBalance :: "env \<Rightarrow> string \<Rightarrow> request_body \<Rightarrow> world \<Rightarrow> response \<times> world" where
  "changeBalance e eventId body w =
     (case (b_transaction_id body, b_account_id body, b_user_id body, b_currency_code body,
            b_type body, b_amount body) of
        (Some tid, Some acc, Some uid, Some cur, Some ty, Some amt) \<Rightarrow>
          if tid = [] \<or> acc = 0 \<or> uid = [] \<or> cur = [] \<or> amt = 0
          then (BadRequest400 ''Missing required fields'', w)
          else (case transactionTypeMap ty of
                  None \<Rightarrow> (BadRequest400 ''Invalid transaction type'', w)
                | Some transactionType \<Rightarrow>
                    (case createBalanceChange e eventId
                            \<lparr>transactionId = tid, req_accountId = acc, userId = uid,
                             req_currencyCode = cur, req_type = transactionType,
                             amount = amt\<rparr> w of
                       (Inr ev, w') \<Rightarrow> (Ok200 tid ev, w')
                     | (Inl err, w') \<Rightarrow>
                         (if err = DuplicateEvent then Conflict409 err
                          else ServerError500 err, w')))
      | _ \<Rightarrow> (BadRequest400 ''Missing required fields'', w))"

section \<open>Properties of states\<close>

definition nonneg :: "Balance \<Rightarrow> bool" where
  "nonneg b = (0 \<le> available b \<and> 0 \<le> frozen b)"

definition committed_nonneg :: "database \<Rightarrow> bool" where
  "committed_nonneg d = list_all nonneg (account_balances d)"

definition working_set_nonneg :: "cache \<Rightarrow> bool" where
  "working_set_nonneg c = list_all (\<lambda>kv. nonneg (snd kv)) c"

definition world_nonneg :: "world \<Rightarrow> bool" where
  "world_nonneg w = (committed_nonneg (db w) \<and> working_set_nonneg (balanceCache w))"

text \<open>
  A value that the arithmetic of the service returns as it is: it has at most
  \<open>precision\<close> significant digits.
\<close>

definition representable :: "decimal \<Rightarrow> bool" where
  "representable x = (finalise x = x)"


text \<open>
  The holder of the lease at the environment's time, as the lock table is read by
  \<open>renewLock\<close> and \<open>checkLockInTransaction\<close>: the consumer of the row, while
  \<open>expires_at > NOW()\<close>.
\<close>

definition lease_holder :: "env \<Rightarrow> database \<Rightarrow> string option" where
  "lease_holder e d =
     (case leader_locks d of
        None \<Rightarrow> None
      | Some l \<Rightarrow> if now e < expires_at l then Some (consumer_id l) else None)"

section \<open>Scenario data\<close>

text \<open>
  The concrete inputs of the end-to-end scenarios: account 1, currency USDT, a healthy
  environment at a given time, an empty store and a freshly started process.
\<close>

definition env_at :: "nat \<Rightarrow> env" where
  "env_at t = \<lparr>now = t, pool_fails = False, tx_fails = False, kafka_fails = False,
              maxRetries = 3\<rparr>"

definition empty_db :: database where
  "empty_db = \<lparr>account_balances = [], balance_transactions = [], outbox_events = [],
               leader_locks = None, consumer_offsets = []\<rparr>"

definition fresh_world :: world where
  "fresh_world = \<lparr>db = empty_db, balanceCache = [], leaderElectionInstance = None,
                  leaderElectionEnabled = False, running = False, consumer = None,
                  retryMap = [], balance_changes = [], balance_changes_dlq = [],
                  redis_queue = []\<rparr>"

definition mutation :: "string \<Rightarrow> TransactionType \<Rightarrow> decimal \<Rightarrow> BalanceChangeRequest" where
  "mutation t ty a = \<lparr>transactionId = t, req_accountId = 1, userId = ''u1'',
                      req_currencyCode = ''USDT'', req_type = ty, amount = a\<rparr>"

definition record_at :: "nat \<Rightarrow> BalanceChangeRequest \<Rightarrow> message" where
  "record_at n r = \<lparr>m_key = userId r, m_value = Some r, m_offset = n\<rparr>"

definition usdt_balance :: "decimal \<Rightarrow> decimal \<Rightarrow> int \<Rightarrow> Balance" where
  "usdt_balance a f v = \<lparr>accountId = 1, currencyCode = ''USDT'', available = a, frozen = f,
                         version = v\<rparr>"

definition db_with :: "Balance \<Rightarrow> database" where
  "db_with b = empty_db\<lparr>account_balances := [b]\<rparr>"

definition post_body :: "string \<Rightarrow> nat \<Rightarrow> decimal \<Rightarrow> request_body" where
  "post_body t ty a = \<lparr>b_transaction_id = Some t, b_account_id = Some 1, b_user_id = Some ''u1'',
                       b_currency_code = Some ''USDT'', b_type = Some ty, b_amount = Some a\<rparr>"

text \<open>The store of scenario 3: balance (available 100, frozen 0), and a consumer on it.\<close>

definition funded_db :: database where
  "funded_db = db_with (usdt_balance 100 0 1)"

definition funded_world :: world where
  "funded_world = start (fresh_world\<lparr>db := funded_db\<rparr>)"

text \<open>The process after the REST surface has accepted a deposit of \<open>-5\<close>.\<close>

definition negative_deposit_world :: world where
  "negative_deposit_world =
     snd (changeBalance (env_at 0) ''e9'' (post_body ''t9'' 0 (- 5)) funded_world)"

text \<open>
  The hand-off of scenario 6: worker A acquires the lease at time 0 (TTL 5), enables
  leader election and starts its consumer, as the bootstrap of the process does; worker
  B acquires the lease at time 10. In \<open>stale_world\<close> A has not noticed yet; in
  \<open>demoted_world\<close> A's renewal at time 11 has failed and cleared its leader flag.
\<close>

definition worker :: "string \<Rightarrow> LeaderElection" where
  "worker cid = \<lparr>consumerId = cid, lockTTL = 5, isLeader = False\<rparr>"

definition leader_A :: LeaderElection where
  "leader_A = fst (snd (acquireLock (env_at 0) (worker ''A'') funded_db))"

definition handoff_db :: database where
  "handoff_db =
     snd (snd (acquireLock (env_at 10) (worker ''B'')
       (snd (snd (acquireLock (env_at 0) (worker ''A'') funded_db)))))"

definition stale_world :: world where
  "stale_world =
     start (enableLeaderElection
       (fresh_world\<lparr>db := handoff_db, leaderElectionInstance := Some leader_A\<rparr>))"

text \<open>The process of A after its first batch at time 12 has met the fence.\<close>

definition fenced_once_world :: world where
  "fenced_once_world =
     snd (eachBatch (env_at 12) [record_at 0 (mutation ''t5'' DEPOSIT 10)] 0 stale_world)"

definition demoted_A :: LeaderElection where
  "demoted_A = fst (snd (renewLock (env_at 11) leader_A handoff_db))"

definition demoted_world :: world where
  "demoted_world =
     start (enableLeaderElection
       (fresh_world\<lparr>db := handoff_db, leaderElectionInstance := Some demoted_A\<rparr>))"

section \<open>Rounding of the decimal arithmetic\<close>

text \<open>
  \<open>decimal_exponent\<close> is the exponent of the leading digit of a positive value,
  and \<open>finalise\<close> returns a multiple of the unit of the twentieth significant digit
  that is at most half a unit away from its argument.
\<close>

lemma digits10_bounds:
  "0 < n \<Longrightarrow> 10 ^ (digits10 n - 1) \<le> n \<and> n < 10 ^ digits10 n"
proof (induction n rule: digits10.induct)
  case (1 n)
  show ?case
  proof (cases "n < 10")
    case True
    with "1.prems" show ?thesis by (simp add: digits10.simps [of n])
  next
    case False
    then have pos: "0 < n div 10" by simp
    from "1.IH" [OF False pos]
    have lo: "10 ^ (digits10 (n div 10) - 1) \<le> n div 10"
      and hi: "n div 10 < 10 ^ digits10 (n div 10)" by simp_all
    have d: "digits10 n = Suc (digits10 (n div 10))"
      using False by (simp add: digits10.simps [of n])
    have "0 < digits10 (n div 10)" by (simp add: digits10.simps [of "n div 10"])
    then obtain m where m: "digits10 (n div 10) = Suc m" by (cases "digits10 (n div 10)") auto
    from lo m have "10 * 10 ^ m \<le> 10 * (n div 10)" by simp
    also have "\<dots> \<le> n" by simp
    finally have l: "10 ^ (digits10 n - 1) \<le> n" using d m by simp
    from hi have "n div 10 + 1 \<le> 10 ^ digits10 (n div 10)" by simp
    then have "10 * (n div 10) + 10 \<le> 10 * 10 ^ digits10 (n div 10)" by simp
    moreover have "n < 10 * (n div 10) + 10" by presburger
    ultimately have "n < 10 ^ digits10 n" using d by simp
    with l show ?thesis by simp
  qed
qed

lemma pow10_pos: "0 < pow10 k"
  by (simp add: pow10_def)

lemma pow10_Suc: "pow10 (k + 1) = 10 * pow10 k"
proof (cases "0 \<le> k")
  case True
  then show ?thesis by (simp add: pow10_def nat_add_distrib)
next
  case False
  then obtain m where m: "- k = int (Suc m)"
    by (metis neg_0_less_iff_less not_le zero_less_imp_eq_int Suc_pred' of_nat_0_less_iff)
  then have k: "k = - int (Suc m)" by simp
  show ?thesis
    by (cases m) (simp_all add: pow10_def k nat_add_distrib)
qed

lemma pow10_diff: "pow10 (int a - int b) = 10 ^ a / 10 ^ b"
proof (cases "b \<le> a")
  case True
  then show ?thesis by (simp add: pow10_def power_diff of_nat_diff flip: of_nat_diff)
next
  case False
  then have "a < b" by simp
  then have "nat (int b - int a) = b - a" by simp
  moreover have "(10::rat) ^ b = 10 ^ (b - a) * 10 ^ a"
    using \<open>a < b\<close> by (simp flip: power_add)
  ultimately show ?thesis using \<open>a < b\<close> by (simp add: pow10_def)
qed

lemma decimal_exponent_bounds:
  assumes "0 < x"
  shows "pow10 (decimal_exponent x) \<le> x \<and> x < pow10 (decimal_exponent x + 1)"
proof -
  obtain n d where q: "quotient_of x = (n, d)" by (cases "quotient_of x")
  then have d: "0 < d" and x: "x = of_int n / of_int d"
    using quotient_of_denom_pos quotient_of_div by blast+
  with assms have n: "0 < n" by (simp add: zero_less_divide_iff)
  define a where "a = digits10 n"
  define b where "b = digits10 d"
  from digits10_bounds [OF n] have na: "10 ^ (a - 1) \<le> n" "n < 10 ^ a" by (simp_all add: a_def)
  from digits10_bounds [OF d] have db: "10 ^ (b - 1) \<le> d" "d < 10 ^ b" by (simp_all add: b_def)
  have apos: "0 < a" unfolding a_def by (simp add: digits10.simps [of n])
  have bpos: "0 < b" unfolding b_def by (simp add: digits10.simps [of d])
  have nr: "(10::rat) ^ (a - 1) \<le> of_int n" "(of_int n :: rat) < 10 ^ a"
    using na by (metis of_int_le_iff of_int_numeral of_int_power, metis of_int_less_iff of_int_numeral of_int_power)
  have dr: "(10::rat) ^ (b - 1) \<le> of_int d" "(of_int d :: rat) < 10 ^ b"
    using db by (metis of_int_le_iff of_int_numeral of_int_power, metis of_int_less_iff of_int_numeral of_int_power)
  have dpos: "(0::rat) < of_int d" using d by simp
  have upper: "x < pow10 (int a - int b + 1)"
  proof -
    have "of_int n * (10::rat) ^ b < 10 ^ a * (10 * of_int d)"
    proof -
      have "(10::rat) ^ b = 10 * 10 ^ (b - 1)" using bpos by (cases b) simp_all
      also have "\<dots> \<le> 10 * of_int d" using dr(1) by simp
      finally have "(10::rat) ^ b \<le> 10 * of_int d" .
      moreover have "(0::rat) < of_int n" using n by simp
      ultimately have "of_int n * (10::rat) ^ b \<le> of_int n * (10 * of_int d)"
        by (simp add: mult_left_mono)
      also have "\<dots> < 10 ^ a * (10 * of_int d)"
        using nr(2) dpos by (simp add: mult_strict_right_mono)
      finally show ?thesis .
    qed
    then have "(of_int n :: rat) / of_int d < 10 * (10 ^ a / 10 ^ b)"
      using dpos by (simp add: field_simps)
    then show ?thesis by (simp add: x pow10_Suc pow10_diff)
  qed
  have lower: "pow10 (int a - int b - 1) \<le> x"
  proof -
    have "(10::rat) ^ a = 10 * 10 ^ (a - 1)" using apos by (cases a) simp_all
    also have "\<dots> \<le> 10 * of_int n" using nr(1) by simp
    finally have "(10::rat) ^ a \<le> 10 * of_int n" .
    then have "(10::rat) ^ a * of_int d \<le> 10 * of_int n * 10 ^ b"
      using dr(2) dpos n
      by (meson less_imp_le mult_mono of_int_0_le_iff order_less_imp_le zero_le_mult_iff zero_le_numeral zero_le_power order_trans)
    then have "(10::rat) ^ a / 10 ^ b \<le> 10 * (of_int n / of_int d)"
      using dpos by (simp add: field_simps)
    moreover have "pow10 (int a - int b) = 10 * pow10 (int a - int b - 1)"
      using pow10_Suc [of "int a - int b - 1"] by simp
    ultimately show ?thesis by (simp add: x pow10_diff)
  qed
  show ?thesis
  proof (cases "pow10 (int a - int b) \<le> x")
    case True
    with upper q show ?thesis by (simp add: decimal_exponent_def a_def b_def Let_def)
  next
    case False
    then have "x < pow10 (int a - int b - 1 + 1)" by simp
    with False lower q show ?thesis by (simp add: decimal_exponent_def a_def b_def Let_def)
  qed
qed


lemma finalise_nearest:
  assumes "x \<noteq> 0"
  shows "\<bar>finalise x - x\<bar> \<le> pow10 (decimal_exponent \<bar>x\<bar> - (int precision - 1)) / 2"
proof -
  define u where "u = pow10 (decimal_exponent \<bar>x\<bar> - (int precision - 1))"
  define q where "q = \<bar>x\<bar> / u"
  define n where "n = \<lfloor>q + 1 / 2\<rfloor>"
  have u: "0 < u" by (simp add: u_def pow10_pos)
  have "of_int n \<le> q + 1 / 2" and "q + 1 / 2 < of_int n + 1"
    unfolding n_def by linarith+
  then have near: "\<bar>of_int n - q\<bar> \<le> 1 / 2" by linarith
  have fx: "finalise x = sgn x * of_int n * u"
    using assms by (simp add: finalise_def Let_def u_def q_def n_def)
  have "x = sgn x * (q * u)"
    using u by (simp add: q_def mult_sgn_abs)
  then have "finalise x - x = sgn x * (u * (of_int n - q))"
    using fx by (simp add: algebra_simps)
  then have "\<bar>finalise x - x\<bar> = u * \<bar>of_int n - q\<bar>"
    using assms u by (simp add: abs_mult abs_sgn_eq)
  also have "\<dots> \<le> u * (1 / 2)"
    using near u by (simp only: mult_le_cancel_left_pos)
  finally show ?thesis by (simp add: u_def)
qed

section \<open>Working set and single mutations\<close>


lemma finalise_minus: "finalise (- x) = - finalise x"
  by (simp add: finalise_def Let_def)

lemma representable_minus: "representable x \<Longrightarrow> finalise (- x) = - x"
  by (simp add: representable_def finalise_minus)






section \<open>Non-negative balances\<close>

lemma update_existing_nonneg:
  "list_all nonneg rows \<Longrightarrow> list_all nonneg (update_existing temp rows)"
  by (auto simp: update_existing_def list_all_iff nonneg_def find_Some_iff split: option.splits)

lemma foldl_insert_ignore_nonneg:
  "list_all nonneg rows \<Longrightarrow>
   list_all (\<lambda>t. 0 \<le> s_available_after t \<and> 0 \<le> s_frozen_after t) ts \<Longrightarrow>
   list_all nonneg (foldl insert_ignore rows ts)"
proof (induction ts arbitrary: rows)
  case Nil
  then show ?case by simp
next
  case (Cons t ts)
  from Cons.prems have "nonneg \<lparr>accountId = s_account_id t, currencyCode = s_currency_code t,
                                available = s_available_after t, frozen = s_frozen_after t,
                                version = 0\<rparr>"
    by (simp add: nonneg_def)
  with Cons.prems have "list_all nonneg (insert_ignore rows t)"
    by (simp add: insert_ignore_def)
  with Cons show ?case by simp
qed

lemma insert_missing_nonneg:
  "list_all nonneg rows \<Longrightarrow> list_all nonneg (insert_missing temp rows)"
  unfolding insert_missing_def
  by (rule foldl_insert_ignore_nonneg) (simp_all add: list_all_iff)

lemma batchWrite_nonneg:
  "committed_nonneg d \<Longrightarrow> committed_nonneg (fst (snd (batchWriteBalanceUpdates e updates cb d)))"
  by (auto simp: batchWriteBalanceUpdates_def committed_nonneg_def Let_def
        insert_missing_nonneg update_existing_nonneg split: option.splits prod.splits)

lemma alist_update_all:
  "list_all P al \<Longrightarrow> P (k, v) \<Longrightarrow> list_all P (AList.update k v al)"
  by (induction al) auto

lemma cache_set_nonneg:
  "working_set_nonneg c \<Longrightarrow> nonneg b \<Longrightarrow> working_set_nonneg (cache_set c a cur b)"
  by (simp add: working_set_nonneg_def cache_set_def alist_update_all)

lemma cache_update_nonneg:
  "cache_update c a cur dA dF = Inr (b', c') \<Longrightarrow> nonneg b'"
  by (auto simp: cache_update_def Let_def nonneg_def split: option.splits if_splits)

lemma cache_update_keeps_nonneg:
  "cache_update c a cur dA dF = Inr (b', c') \<Longrightarrow> working_set_nonneg c \<Longrightarrow> working_set_nonneg c'"
  by (auto simp: cache_update_def Let_def nonneg_def working_set_nonneg_def
        intro!: alist_update_all split: option.splits if_splits)

lemma recordTransaction_balances:
  "account_balances (recordTransaction e d r ab aa fb fa st m) = account_balances d"
  by (simp add: recordTransaction_def)

lemma loadBalanceFromDB_nonneg:
  "loadBalanceFromDB e d c a cur = Inr (found, c') \<Longrightarrow> committed_nonneg d \<Longrightarrow>
   working_set_nonneg c \<Longrightarrow>
   working_set_nonneg c' \<and> (case found of None \<Rightarrow> True | Some b \<Rightarrow> nonneg b)"
  by (auto simp: loadBalanceFromDB_def committed_nonneg_def list_all_iff find_Some_iff
        intro!: cache_set_nonneg split: if_splits option.splits)

lemma updateBalance_balances:
  "updateBalance e r d c = (res, d', c') \<Longrightarrow> account_balances d' = account_balances d"
  by (auto simp: updateBalance_def Let_def recordTransaction_balances
        split: sum.splits prod.splits option.splits if_splits)

lemma updateBalance_nonneg:
  assumes "updateBalance e r d c = (res, d', c')" "committed_nonneg d" "working_set_nonneg c"
  shows "working_set_nonneg c'"
proof (cases "getBalance e d c (req_accountId r) (req_currencyCode r)")
  case (Inl err)
  with assms show ?thesis by (simp add: updateBalance_def)
next
  case (Inr fc)
  obtain found c1 where fc: "fc = (found, c1)" by (cases fc)
  from Inr fc assms(2,3) have c1: "working_set_nonneg c1"
    and fnd: "case found of None \<Rightarrow> True | Some b \<Rightarrow> nonneg b"
    using loadBalanceFromDB_nonneg [of e d c "req_accountId r" "req_currencyCode r" found c1]
    by (simp_all add: getBalance_def)
  have z: "working_set_nonneg (cache_set c1 (req_accountId r) (req_currencyCode r)
             \<lparr>accountId = req_accountId r, currencyCode = req_currencyCode r,
              available = 0, frozen = 0, version = 0\<rparr>)"
    by (rule cache_set_nonneg [OF c1]) (simp add: nonneg_def)
  from assms(1) Inr fc c1 z show ?thesis
    by (auto simp: updateBalance_def Let_def
          split: sum.splits prod.splits option.splits if_splits
          dest: cache_update_keeps_nonneg)
qed

lemma processRequest_nonneg:
  assumes "processRequest e ms p r (us, w) = (err, us', w')" "world_nonneg w"
  shows "world_nonneg w'"
proof -
  obtain res d' c' where ub: "updateBalance e r (db w) (balanceCache w) = (res, d', c')"
    by (cases "updateBalance e r (db w) (balanceCache w)") auto
  from ub assms(2) have "committed_nonneg d'" "working_set_nonneg c'"
    using updateBalance_balances [OF ub] updateBalance_nonneg [OF ub]
    by (simp_all add: world_nonneg_def committed_nonneg_def)
  with assms(1) ub show ?thesis
    by (auto simp: processRequest_def world_nonneg_def Let_def
          split: sum.splits prod.splits bool.splits if_splits)
qed

lemma processRequests_nonneg:
  "processRequests e ms p rs uw = (err, uw') \<Longrightarrow> world_nonneg (snd uw) \<Longrightarrow> world_nonneg (snd uw')"
proof (induction rs arbitrary: uw)
  case Nil
  then show ?case by simp
next
  case (Cons r rs)
  obtain us w where uw: "uw = (us, w)" by (cases uw)
  obtain err1 us1 w1 where pr: "processRequest e ms p r (us, w) = (err1, us1, w1)"
    by (cases "processRequest e ms p r (us, w)") auto
  from pr Cons.prems(2) uw have w1: "world_nonneg w1"
    using processRequest_nonneg by auto
  show ?case
  proof (cases err1)
    case None
    with Cons.prems(1) pr uw have "processRequests e ms p rs (us1, w1) = (err, uw')" by simp
    from Cons.IH [OF this] w1 show ?thesis by simp
  next
    case (Some x)
    with Cons.prems(1) pr uw w1 show ?thesis by auto
  qed
qed

lemma writeUpdates_nonneg:
  "world_nonneg w \<Longrightarrow> world_nonneg (snd (writeUpdates e us w))"
  using batchWrite_nonneg [of "db w" e us "if isLeaderElectionEnabled w then leaderElectionInstance w else None"]
  by (auto simp: writeUpdates_def world_nonneg_def enqueueSnapshots_def Let_def split: prod.splits sum.splits)

lemma processBatch_nonneg:
  assumes "world_nonneg w"
  shows "world_nonneg (snd (processBatch e ms p w))"
proof -
  have "world_nonneg w1" if "processRequests e ms p rs ([], w) = (err, us, w1)" for rs err us w1
    using processRequests_nonneg [OF that] assms by simp
  then show ?thesis using assms
    by (auto simp: processBatch_def writeUpdates_nonneg split: sum.splits prod.splits option.splits)
qed

lemma eachBatch_nonneg:
  "world_nonneg w \<Longrightarrow> world_nonneg (snd (eachBatch e ms p w))"
  using processBatch_nonneg [of w e ms p]
  by (auto simp: eachBatch_def split: prod.splits option.splits)

lemma changeBalance_balances:
  "account_balances (db (snd (changeBalance e ev body w))) = account_balances (db w)
   \<and> balanceCache (snd (changeBalance e ev body w)) = balanceCache w"
  by (auto simp: changeBalance_def createBalanceChange_def sendToKafka_def
        split: option.splits prod.splits sum.splits)

text \<open>
  Claim C3. If every stored balance row and every working-set balance has
  \<open>available \<ge> 0\<close> and \<open>frozen \<ge> 0\<close>, the same holds after every operation:
  after a whole consumer batch (\<open>eachBatch\<close>: dedupe, the single mutations,
  the batch commit), after a batch commit of any list of updates with or without the
  fence, after a single mutation (\<open>updateBalance\<close>, which leaves the stored rows as
  they are), and after a request on the REST surface.
\<close>

theorem balances_never_negative:
  assumes "world_nonneg w"
  shows "world_nonneg (snd (eachBatch e messages part w))
       \<and> committed_nonneg (fst (snd (batchWriteBalanceUpdates e updates callback (db w))))
       \<and> account_balances (fst (snd (updateBalance e req (db w) (balanceCache w))))
           = account_balances (db w)
       \<and> working_set_nonneg (snd (snd (updateBalance e req (db w) (balanceCache w))))
       \<and> world_nonneg (snd (changeBalance e eventId body w))"
proof -
  obtain res d' c' where ub: "updateBalance e req (db w) (balanceCache w) = (res, d', c')"
    by (cases "updateBalance e req (db w) (balanceCache w)") auto
  from assms have d: "committed_nonneg (db w)" and c: "working_set_nonneg (balanceCache w)"
    by (simp_all add: world_nonneg_def)
  have "world_nonneg (snd (eachBatch e messages part w))"
    using assms by (rule eachBatch_nonneg)
  moreover have "committed_nonneg (fst (snd (batchWriteBalanceUpdates e updates callback (db w))))"
    using d by (rule batchWrite_nonneg)
  moreover have "account_balances d' = account_balances (db w)"
    using ub by (rule updateBalance_balances)
  moreover have "working_set_nonneg c'"
    using ub d c by (rule updateBalance_nonneg)
  moreover have "world_nonneg (snd (changeBalance e eventId body w))"
    using assms changeBalance_balances [of e eventId body w]
    by (simp add: world_nonneg_def committed_nonneg_def)
  ultimately show ?thesis using ub by simp
qed

theorem balances_never_negative_witness:
  "world_nonneg funded_world
   \<and> world_nonneg (snd (eachBatch (env_at 0) [record_at 1 (mutation ''t2'' WITHDRAW 150)] 0
                          funded_world))
   \<and> committed_nonneg (fst (snd (batchWriteBalanceUpdates (env_at 0)
        [\<lparr>request = mutation ''t2'' WITHDRAW 150, u_availableBefore = 100,
          u_availableAfter = - 50, u_frozenBefore = 0, u_frozenAfter = 0,
          u_status = SUCCESS\<rparr>] None (db funded_world))))"
proof -
  have h: "world_nonneg funded_world"
    by (simp add: world_nonneg_def committed_nonneg_def working_set_nonneg_def nonneg_def
          funded_world_def start_def fresh_world_def funded_db_def db_with_def
          usdt_balance_def empty_db_def)
  from balances_never_negative [OF h] h show ?thesis by blast
qed

section \<open>Tables a batch leaves alone\<close>

lemma recordTransaction_offsets:
  "consumer_offsets (recordTransaction e d r ab aa fb fa st m) = consumer_offsets d"
  by (simp add: recordTransaction_def)

lemma updateBalance_offsets:
  "updateBalance e r d c = (res, d', c') \<Longrightarrow> consumer_offsets d' = consumer_offsets d"
  by (auto simp: updateBalance_def Let_def recordTransaction_offsets
        split: sum.splits prod.splits option.splits if_splits)

lemma processRequest_tables:
  assumes "processRequest e ms p r (us, w) = (err, us', w')"
  shows "consumer_offsets (db w') = consumer_offsets (db w)
       \<and> account_balances (db w') = account_balances (db w)"
proof -
  obtain res d' c' where ub: "updateBalance e r (db w) (balanceCache w) = (res, d', c')"
    by (cases "updateBalance e r (db w) (balanceCache w)") auto
  from assms ub updateBalance_offsets [OF ub] updateBalance_balances [OF ub] show ?thesis
    by (auto simp: processRequest_def Let_def split: sum.splits prod.splits bool.splits if_splits)
qed

lemma processRequests_tables:
  "processRequests e ms p rs uw = (err, uw') \<Longrightarrow>
   consumer_offsets (db (snd uw')) = consumer_offsets (db (snd uw))
   \<and> account_balances (db (snd uw')) = account_balances (db (snd uw))"
proof (induction rs arbitrary: uw)
  case Nil
  then show ?case by simp
next
  case (Cons r rs)
  obtain us w where uw: "uw = (us, w)" by (cases uw)
  obtain err1 us1 w1 where pr: "processRequest e ms p r (us, w) = (err1, us1, w1)"
    by (cases "processRequest e ms p r (us, w)") auto
  note step = processRequest_tables [OF pr]
  show ?case
  proof (cases err1)
    case None
    with Cons.prems pr uw have "processRequests e ms p rs (us1, w1) = (err, uw')" by simp
    from Cons.IH [OF this] step uw show ?thesis by simp
  next
    case (Some x)
    with Cons.prems pr uw step show ?thesis by auto
  qed
qed

lemma batchWrite_offsets:
  "consumer_offsets (fst (snd (batchWriteBalanceUpdates e us cb d))) = consumer_offsets d"
  by (auto simp: batchWriteBalanceUpdates_def Let_def split: option.splits prod.splits)

lemma writeUpdates_offsets:
  "consumer_offsets (db (snd (writeUpdates e us w))) = consumer_offsets (db w)"
  using batchWrite_offsets [of e us "if isLeaderElectionEnabled w then leaderElectionInstance w else None" "db w"]
  by (auto simp: writeUpdates_def enqueueSnapshots_def Let_def split: prod.splits sum.splits)

lemma processBatch_offsets:
  "consumer_offsets (db (snd (processBatch e ms p w))) = consumer_offsets (db w)"
proof -
  have "consumer_offsets (db w1) = consumer_offsets (db w)"
    if "processRequests e ms p rs ([], w) = (err, us, w1)" for rs err us w1
    using processRequests_tables [OF that] by simp
  then show ?thesis
    by (auto simp: processBatch_def writeUpdates_offsets split: sum.splits prod.splits option.splits)
qed

section \<open>The leader fence\<close>

text \<open>
  Claim C1, evaluated on the hand-off. Worker A has been leader (its acquisition at
  time 0 succeeded), leader election is enabled, and from time 10 the lease belongs to
  worker B. While A's in-memory leader flag is still set the fence works: A's batch at
  time 12 is rolled back, the stored balance stays 100. But that fence check clears the
  flag, so \<open>isLeaderElectionEnabled()\<close> is false from then on and A's next batch, at
  time 13, is committed with no fence check: the stored balance goes to 110 under B's
  lease. The same happens to A's first batch when a failed renewal has cleared the flag
  before. The claim has the check on every batch commit of a worker that has ever been
  leader, and every commit failing while the lease is with another worker.
\<close>

theorem fence_disabled_after_loss:
  "fst (acquireLock (env_at 0) (worker ''A'') funded_db)
   \<and> leaderElectionEnabled stale_world
   \<and> isLeaderElectionEnabled stale_world
   \<and> lease_holder (env_at 12) (db stale_world) = Some ''B''
   \<and> fst (eachBatch (env_at 12) [record_at 0 (mutation ''t5'' DEPOSIT 10)] 0 stale_world)
       = Inr [0]
   \<and> account_balances (db fenced_once_world) = [usdt_balance 100 0 1]
   \<and> leaderElectionEnabled fenced_once_world
   \<and> \<not> isLeaderElectionEnabled fenced_once_world
   \<and> lease_holder (env_at 13) (db fenced_once_world) = Some ''B''
   \<and> fst (eachBatch (env_at 13) [record_at 1 (mutation ''t6'' DEPOSIT 10)] 0 fenced_once_world)
       = Inr [1]
   \<and> account_balances (db (snd (eachBatch (env_at 13)
        [record_at 1 (mutation ''t6'' DEPOSIT 10)] 0 fenced_once_world)))
       = [usdt_balance 110 0 2]
   \<and> leaderElectionEnabled demoted_world
   \<and> \<not> isLeaderElectionEnabled demoted_world
   \<and> map_option consumerId (leaderElectionInstance demoted_world) = Some ''A''
   \<and> lease_holder (env_at 12) (db demoted_world) = Some ''B''
   \<and> fst (eachBatch (env_at 12) [record_at 0 (mutation ''t5'' DEPOSIT 10)] 0 demoted_world)
       = Inr [0]
   \<and> account_balances (db demoted_world) = [usdt_balance 100 0 1]
   \<and> account_balances (db (snd (eachBatch (env_at 12)
        [record_at 0 (mutation ''t5'' DEPOSIT 10)] 0 demoted_world)))
       = [usdt_balance 110 0 2]"
  by code_simp

section \<open>Offsets\<close>

lemma deduplicate_healthy:
  "\<not> pool_fails e \<Longrightarrow> \<exists>rs. deduplicateMessages e d ms = Inr rs"
  by (simp add: deduplicateMessages_def Let_def)

lemma processRequest_healthy:
  "\<not> kafka_fails e \<Longrightarrow> fst (processRequest e ms p r uw) = None"
  by (auto simp: processRequest_def handleError_def handleRetryableError_def sendToDLQ_def Let_def
        split: prod.splits sum.splits bool.splits)

lemma processRequests_healthy:
  "\<not> kafka_fails e \<Longrightarrow> fst (processRequests e ms p rs uw) = None"
proof (induction rs arbitrary: uw)
  case Nil
  then show ?case by simp
next
  case (Cons r rs)
  obtain err uw1 where pr: "processRequest e ms p r uw = (err, uw1)"
    by (cases "processRequest e ms p r uw")
  with processRequest_healthy [OF Cons.prems, of ms p r uw] have "err = None" by simp
  with pr Cons.IH [OF Cons.prems, of uw1] show ?case by simp
qed

lemma processBatch_healthy:
  assumes "\<not> pool_fails e" "\<not> kafka_fails e"
  shows "fst (processBatch e ms p w) = None"
proof -
  from deduplicate_healthy [OF assms(1)] obtain rs where rs: "deduplicateMessages e (db w) ms = Inr rs"
    by blast
  from processRequests_healthy [OF assms(2), of ms p rs "([], w)"] rs show ?thesis
    by (auto simp: processBatch_def split: prod.splits option.splits)
qed

lemma writeUpdates_rollback:
  "fst (writeUpdates e us w) = Inl err \<Longrightarrow> db (snd (writeUpdates e us w)) = db w"
  by (auto simp: writeUpdates_def batchWriteBalanceUpdates_def leaderCheckCallback_def Let_def
        split: prod.splits option.splits bool.splits sum.splits if_splits)

lemma writeUpdates_tx_fails:
  "tx_fails e \<Longrightarrow> db (snd (writeUpdates e us w)) = db w"
  by (auto simp: writeUpdates_def batchWriteBalanceUpdates_def enqueueSnapshots_def Let_def
        split: prod.splits option.splits sum.splits)

lemma processBatch_tx_fails:
  assumes "tx_fails e"
  shows "account_balances (db (snd (processBatch e ms p w))) = account_balances (db w)"
proof -
  have "account_balances (db w1) = account_balances (db w)"
    if "processRequests e ms p rs ([], w) = (err, us, w1)" for rs err us w1
    using processRequests_tables [OF that] by simp
  then show ?thesis
    by (auto simp: processBatch_def writeUpdates_tx_fails [OF assms]
          split: sum.splits prod.splits option.splits)
qed

text \<open>
  Claim C7, as the code has it. A batch write that fails, with a database error or
  with the loss of the leader lease, rolls its transaction back: the store is as it was
  before the write, and after a database failure of the write the stored balances are
  those from before the batch. \<open>processBatch\<close> logs that error and does not rethrow
  it, so while queries on the pool and sends of the producer succeed, the handler
  resolves the offsets of all records of the batch whatever the outcome of the write;
  the records are not processed again.
\<close>

theorem failed_write_resolves_offsets:
  assumes "running w" and "messages \<noteq> []" and "\<not> pool_fails e" and "\<not> kafka_fails e"
  shows "fst (eachBatch e messages part w) = Inr (map m_offset messages)
       \<and> (\<forall>err. fst (writeUpdates e updates w) = Inl err \<longrightarrow>
             db (snd (writeUpdates e updates w)) = db w)
       \<and> (tx_fails e \<longrightarrow>
             account_balances (db (snd (eachBatch e messages part w)))
               = account_balances (db w))"
  using assms processBatch_healthy [of e messages part w]
    writeUpdates_rollback [of e updates w] processBatch_tx_fails [of e messages part w]
  by (auto simp: eachBatch_def split: prod.splits option.splits)

theorem failed_write_resolves_offsets_witness:
  "running funded_world
   \<and> tx_fails ((env_at 0)\<lparr>tx_fails := True\<rparr>)
   \<and> fst (eachBatch ((env_at 0)\<lparr>tx_fails := True\<rparr>)
        [record_at 3 (mutation ''t6'' DEPOSIT 10), record_at 4 (mutation ''t7'' DEPOSIT 20)] 0
        funded_world) = Inr [3, 4]
   \<and> account_balances (db (snd (eachBatch ((env_at 0)\<lparr>tx_fails := True\<rparr>)
        [record_at 3 (mutation ''t6'' DEPOSIT 10), record_at 4 (mutation ''t7'' DEPOSIT 20)] 0
        funded_world))) = [usdt_balance 100 0 1]"
proof -
  have r: "running funded_world" by code_simp
  have ne: "[record_at 3 (mutation ''t6'' DEPOSIT 10), record_at 4 (mutation ''t7'' DEPOSIT 20)]
              \<noteq> []" by simp
  have p: "\<not> pool_fails ((env_at 0)\<lparr>tx_fails := True\<rparr>)" by code_simp
  have k: "\<not> kafka_fails ((env_at 0)\<lparr>tx_fails := True\<rparr>)" by code_simp
  have t: "tx_fails ((env_at 0)\<lparr>tx_fails := True\<rparr>)" by code_simp
  have b: "account_balances (db funded_world) = [usdt_balance 100 0 1]" by code_simp
  have o: "map m_offset
             [record_at 3 (mutation ''t6'' DEPOSIT 10), record_at 4 (mutation ''t7'' DEPOSIT 20)]
           = [3, 4]" by code_simp
  from failed_write_resolves_offsets [OF r ne p k, of 0] r t b o show ?thesis by simp
qed

text \<open>
  Claim C7 as stated fails. The batch write raises a database error (first part), or
  the fence finds the lease with worker B (second part); the transaction is rolled
  back and the stored balance stays 100, yet the offset of the batch's record is
  resolved.
\<close>

theorem failed_write_offsets_counterexample:
  "tx_fails ((env_at 0)\<lparr>tx_fails := True\<rparr>)
   \<and> eachBatch ((env_at 0)\<lparr>tx_fails := True\<rparr>) [record_at 1 (mutation ''t2'' DEPOSIT 10)] 0
        funded_world
       = (Inr [1],
          funded_world
            \<lparr>db := funded_db\<lparr>balance_transactions :=
                 [\<lparr>tx_account_id = 1, tx_currency_code = ''USDT'', transaction_id = ''t2'',
                   tx_type = DEPOSIT, tx_amount = 10,
                   available_before = 100, available_after = 110,
                   frozen_before = 0, frozen_after = 0,
                   status = SUCCESS, error_message = None\<rparr>]\<rparr>,
             balanceCache := [((1, ''USDT''), usdt_balance 110 0 2)]\<rparr>)
   \<and> isLeaderElectionEnabled stale_world
   \<and> lease_holder (env_at 12) (db stale_world) = Some ''B''
   \<and> fst (eachBatch (env_at 12) [record_at 1 (mutation ''t2'' DEPOSIT 10)] 0 stale_world)
       = Inr [1]
   \<and> account_balances (db (snd (eachBatch (env_at 12)
        [record_at 1 (mutation ''t2'' DEPOSIT 10)] 0 stale_world)))
       = [usdt_balance 100 0 1]"
  by code_simp

text \<open>
  Claim C8, as the code has it. Neither a batch commit nor the whole handling of a
  batch writes the stored consumer offsets: the table \<open>consumer_offsets\<close> is the
  same afterwards. The offsets of the batch go to the log client only (the list that
  \<open>eachBatch\<close> returns). \<open>start\<close> leaves the store alone and subscribes to the
  topic with \<open>fromBeginning: true\<close>, whatever the stored offsets are.
\<close>

theorem stored_offset_untouched:
  "consumer_offsets (db (snd (eachBatch e messages part w))) = consumer_offsets (db w)
   \<and> consumer_offsets (fst (snd (batchWriteBalanceUpdates e updates callback d)))
       = consumer_offsets d
   \<and> db (start w) = db w
   \<and> consumer (start (w\<lparr>running := False\<rparr>))
       = Some \<lparr>sub_topic = balanceChangesTopic, fromBeginning = True\<rparr>"
  using processBatch_offsets [of e messages part w]
  by (auto simp: eachBatch_def batchWrite_offsets start_def split: prod.splits option.splits)

text \<open>
  Claim C8 as stated fails. A batch whose only record has offset 7 commits (the balance
  row is created), the offset is resolved with the log client, and no consumer offset is
  stored.
\<close>

theorem stored_offset_counterexample:
  "fst (eachBatch (env_at 0) [record_at 7 (mutation ''t1'' DEPOSIT 100)] 0 (start fresh_world))
     = Inr [7]
   \<and> account_balances (db (snd (eachBatch (env_at 0)
        [record_at 7 (mutation ''t1'' DEPOSIT 100)] 0 (start fresh_world))))
       = [usdt_balance 100 0 0]
   \<and> consumer_offsets (db (snd (eachBatch (env_at 0)
        [record_at 7 (mutation ''t1'' DEPOSIT 100)] 0 (start fresh_world)))) = []"
  by code_simp

section \<open>Idempotency\<close>

text \<open>
  Two records with the same transaction id \<open>t1\<close> of an accepted deposit in one
  batch: \<open>deduplicateMessages\<close> filters only ids that already have a ledger row, so
  both records are processed; the unique keys of the store and the single update of a
  joined row leave one ledger row and one balance change.
\<close>

lemma accepted_duplicates_in_batch:
  "deduplicateMessages (env_at 0) funded_db
     [record_at 0 (mutation ''t1'' DEPOSIT 100), record_at 1 (mutation ''t1'' DEPOSIT 100)]
     = Inr [mutation ''t1'' DEPOSIT 100, mutation ''t1'' DEPOSIT 100]
   \<and> account_balances (db (snd (eachBatch (env_at 0)
        [record_at 0 (mutation ''t1'' DEPOSIT 100), record_at 1 (mutation ''t1'' DEPOSIT 100)] 0
        funded_world))) = [usdt_balance 200 0 2]
   \<and> map (\<lambda>r. (transaction_id r, status r))
        (balance_transactions (db (snd (eachBatch (env_at 0)
           [record_at 0 (mutation ''t1'' DEPOSIT 100), record_at 1 (mutation ''t1'' DEPOSIT 100)] 0
           funded_world)))) = [(''t1'', SUCCESS)]"
  by code_simp

text \<open>
  Claim C2, evaluated on a request that is rejected: the withdrawal \<open>t2\<close> of 150
  from the balance (available 100, frozen 0). Applied twice, as two records of one
  batch or as one record in each of two batches, it leaves the ledger without any row
  for \<open>t2\<close>: each application throws out of \<open>updateBalance\<close>, the retry policy
  answers retry, nothing is staged, only the retry counter grows, and the offsets are
  resolved. The claim has exactly one ledger row in a terminal state for every
  transaction id.
\<close>

theorem rejected_duplicates_no_ledger_row:
  "balance_transactions (db funded_world) = []
   \<and> eachBatch (env_at 0)
        [record_at 1 (mutation ''t2'' WITHDRAW 150), record_at 2 (mutation ''t2'' WITHDRAW 150)] 0
        funded_world
       = (Inr [1, 2], funded_world\<lparr>balanceCache := [((1, ''USDT''), usdt_balance 100 0 1)],
                                   retryMap := [(''t2'', 2)]\<rparr>)
   \<and> eachBatch (env_at 1) [record_at 2 (mutation ''t2'' WITHDRAW 150)] 0
        (snd (eachBatch (env_at 0) [record_at 1 (mutation ''t2'' WITHDRAW 150)] 0 funded_world))
       = (Inr [2], funded_world\<lparr>balanceCache := [((1, ''USDT''), usdt_balance 100 0 1)],
                                retryMap := [(''t2'', 2)]\<rparr>)"
  by code_simp

text \<open>
  Claim C5, evaluated on two requests with the same transaction id \<open>t1\<close>: each call
  mints its own event id, the insert can only collide on \<open>event_id\<close>, so the second
  request is answered with success and its new event id, and the outbox holds two events
  for \<open>t1\<close>; the claim has the second one answered with Duplicate.
\<close>

theorem duplicate_transaction_id_accepted:
  "fst (changeBalance (env_at 0) ''e1'' (post_body ''t1'' 0 100) fresh_world) = Ok200 ''t1'' ''e1''
   \<and> fst (changeBalance (env_at 1) ''e2'' (post_body ''t1'' 0 100)
        (snd (changeBalance (env_at 0) ''e1'' (post_body ''t1'' 0 100) fresh_world)))
      = Ok200 ''t1'' ''e2''
   \<and> map (\<lambda>r. (event_id r, transactionId (payload r)))
        (outbox_events (db (snd (changeBalance (env_at 1) ''e2'' (post_body ''t1'' 0 100)
           (snd (changeBalance (env_at 0) ''e1'' (post_body ''t1'' 0 100) fresh_world))))))
      = [(''e1'', ''t1''), (''e2'', ''t1'')]"
  by code_simp

section \<open>Rejections\<close>

text \<open>
  Claim C6, evaluated on the two business rejections. From the balance
  (available 100, frozen 0) a withdrawal \<open>t2\<close> of 150 throws out of
  \<open>updateBalance\<close>; the retry policy answers retry, so no update is staged: the
  ledger stays empty, the retry counter of \<open>t2\<close> becomes 1, and the offset is
  resolved. The same happens to a withdrawal \<open>t8\<close> on an unknown balance. The claim
  has a failed ledger row recorded and no retry.
\<close>

theorem insufficient_funds_no_ledger_row:
  "balance_transactions (db funded_world) = []
   \<and> eachBatch (env_at 0) [record_at 1 (mutation ''t2'' WITHDRAW 150)] 0 funded_world
       = (Inr [1], funded_world\<lparr>balanceCache := [((1, ''USDT''), usdt_balance 100 0 1)],
                                retryMap := [(''t2'', 1)]\<rparr>)
   \<and> eachBatch (env_at 0) [record_at 2 (mutation ''t8'' WITHDRAW 5)] 0 (start fresh_world)
       = (Inr [2], (start fresh_world)\<lparr>retryMap := [(''t8'', 1)]\<rparr>)"
  by code_simp

section \<open>First deposit\<close>

text \<open>
  Claim C9, evaluated on the first deposit \<open>t1\<close> of 100 for account 1 and USDT on an
  empty store: the batch commits, the stored balance row is (available 100, frozen 0)
  and there is one success ledger row with before 0 and after 100, as claimed; but the
  insert of the missing row writes version 0, where the claim (and the working set, and
  the snapshot queue) has version 1.
\<close>

theorem first_deposit_version_zero:
  "eachBatch (env_at 0) [record_at 0 (mutation ''t1'' DEPOSIT 100)] 0 (start fresh_world)
     = (Inr [0],
        (start fresh_world)
          \<lparr>db := empty_db
             \<lparr>account_balances := [usdt_balance 100 0 0],
              balance_transactions :=
                [\<lparr>tx_account_id = 1, tx_currency_code = ''USDT'', transaction_id = ''t1'',
                  tx_type = DEPOSIT, tx_amount = 100,
                  available_before = 0, available_after = 100,
                  frozen_before = 0, frozen_after = 0,
                  status = SUCCESS, error_message = None\<rparr>]\<rparr>,
           balanceCache := [((1, ''USDT''), usdt_balance 100 0 1)],
           redis_queue := [usdt_balance 100 0 1]\<rparr>)"
  by code_simp

section \<open>Negative amounts\<close>

text \<open>
  Claim C10. The REST surface checks the amount for presence only. A deposit of
  \<open>-5\<close> on the balance (available 100, frozen 0) is answered with success and an
  event id and is published to the topic; the consumer then applies the published
  record without any error: the stored available goes from 100 to 95, the ledger row
  of \<open>t9\<close> has status success, nothing is counted for retry and nothing goes to
  the dead-letter topic.
\<close>

theorem negative_amount_accepted:
  "fst (changeBalance (env_at 0) ''e9'' (post_body ''t9'' 0 (- 5)) funded_world)
     = Ok200 ''t9'' ''e9''
   \<and> balance_changes negative_deposit_world = [record_at 0 (mutation ''t9'' DEPOSIT (- 5))]
   \<and> account_balances (db negative_deposit_world) = [usdt_balance 100 0 1]
   \<and> fst (eachBatch (env_at 1) (balance_changes negative_deposit_world) 0
             negative_deposit_world) = Inr [0]
   \<and> account_balances (db (snd (eachBatch (env_at 1) (balance_changes negative_deposit_world) 0
        negative_deposit_world))) = [usdt_balance 95 0 2]
   \<and> balance_transactions (db (snd (eachBatch (env_at 1)
        (balance_changes negative_deposit_world) 0 negative_deposit_world)))
       = [\<lparr>tx_account_id = 1, tx_currency_code = ''USDT'', transaction_id = ''t9'',
           tx_type = DEPOSIT, tx_amount = - 5,
           available_before = 100, available_after = 95,
           frozen_before = 0, frozen_after = 0,
           status = SUCCESS, error_message = None\<rparr>]
   \<and> retryMap (snd (eachBatch (env_at 1) (balance_changes negative_deposit_world) 0
        negative_deposit_world)) = []
   \<and> balance_changes_dlq (snd (eachBatch (env_at 1) (balance_changes negative_deposit_world) 0
        negative_deposit_world)) = []"
  by code_simp

end
